theory Spec2Isabelle
  imports Main
begin

section \<open>Strings\<close>

text \<open>
  A JavaScript string is a sequence of UTF-16 code units. The model keeps the code units
  below 256 (Latin-1), one \<^typ>\<open>char\<close> each, so that \<open>length\<close> is the \<open>.length\<close> of
  the source and the accented letters of the Spanish messages are single characters
  (\<open>CHR 0xE9\<close> is e-acute).
\<close>

definition toLowerCase_char :: "char \<Rightarrow> char" where
  \<comment> \<open>\<open>String.prototype.toLowerCase\<close> on one Latin-1 code unit: A-Z and the accented
      capitals 0xC0-0xDE (the multiplication sign 0xD7 apart) move up by 32.\<close>
  "toLowerCase_char c =
     (let n = (of_char c :: nat)
      in if (65 \<le> n \<and> n \<le> 90) \<or> (192 \<le> n \<and> n \<le> 222 \<and> n \<noteq> 215)
         then char_of (n + 32) else c)"

definition toLowerCase :: "string \<Rightarrow> string" where
  "toLowerCase s = map toLowerCase_char s"

fun startsWith :: "string \<Rightarrow> string \<Rightarrow> bool" where
  "startsWith s [] = True"
| "startsWith [] (c # cs) = False"
| "startsWith (x # xs) (c # cs) = (x = c \<and> startsWith xs cs)"

fun str_includes :: "string \<Rightarrow> string \<Rightarrow> bool" where
  \<comment> \<open>\<open>s.includes(sub)\<close>: \<open>sub\<close> occurs somewhere in \<open>s\<close>.\<close>
  "str_includes [] sub = startsWith [] sub"
| "str_includes (x # xs) sub = (startsWith (x # xs) sub \<or> str_includes xs sub)"

section \<open>Data\<close>

text \<open>
  The \<open>User\<close> interface is imported from \<open>@/lib/api\<close>; the list view reads the fields
  \<open>id\<close>, \<open>nombre\<close>, \<open>email\<close>, \<open>rol\<close> and \<open>createdAt\<close>. \<open>rol\<close> is passed to
  \<open>getRoleBadgeVariant (role: string)\<close>, so it is a string. The fields carry the prefix
  \<open>u_\<close> because \<open>id\<close> is a constant of HOL and the form values reuse the other names.
\<close>

record User =
  u_id :: int
  u_nombre :: string
  u_email :: string
  u_rol :: string
  u_createdAt :: string

record AddUserFormValues =
  nombre :: string
  email :: string
  password :: string
  rol :: string

text \<open>
  What a rejected promise carries: an instance of \<open>Error\<close> with its message, or any other
  thrown value (\<open>error instanceof Error\<close> is false for it).
\<close>

datatype thrown = Error (message: string) | NonError

datatype toast_variant = destructive

record toast_args =
  title :: string
  description :: string
  variant :: "toast_variant option"

datatype request =
    GetUsersReq
  | DeleteUserReq int
  | CreateUserReq AddUserFormValues

datatype effect =
    Toast toast_args
  | Call request
  | ConsoleLog int
  | ConsoleError thrown

datatype field = Nombre | Email | Password | Rol

text \<open>
  An issue of the schema: the message given in the source, or the library's own message
  for a value outside the enumeration (the source gives none for \<open>rol\<close>).
\<close>

datatype issue = Message string | InvalidEnumValue

section \<open>The state of the two components and of their environment\<close>

text \<open>
  \<open>users\<close>, \<open>isLoading\<close>, \<open>deleteId\<close> and \<open>isAddUserOpen\<close> are the \<open>useState\<close> cells of
  \<open>Users\<close>; \<open>isSubmitting\<close> is the one of \<open>AddUserForm\<close>, \<open>formValues\<close> and \<open>formErrors\<close>
  are the state kept by \<open>useForm\<close>. These three belong to one instance of the form:
  \<open>formMounted\<close> says whether the view committed last holds an instance, and
  \<open>submitEnabled\<close> whether that view holds a submit button that is enabled. A setter
  changes the state at once; what is on the screen changes only when the view is rendered
  and committed again (\<open>commit\<close> below), so \<open>submitEnabled\<close> can lag behind
  \<open>isSubmitting\<close>.

  \<open>trace\<close> logs, in order, every notification, API call and console line; \<open>inflight\<close>
  holds the API requests that have been sent and have not settled yet, those of the
  current form instance among them; \<open>orphaned\<close> holds the create requests, still
  unsettled, of form instances that have been discarded.
\<close>

record world =
  users :: "User list"
  isLoading :: bool
  deleteId :: "int option"
  isAddUserOpen :: bool
  isSubmitting :: bool
  formValues :: AddUserFormValues
  formErrors :: "(field \<times> issue) list"
  trace :: "effect list"
  inflight :: "request list"
  formMounted :: bool
  submitEnabled :: bool
  orphaned :: "request list"

definition defaultValues :: AddUserFormValues where
  "defaultValues = \<lparr>nombre = '''', email = '''', password = '''', rol = ''comerciante''\<rparr>"

definition initial :: world where
  "initial = \<lparr>users = [], isLoading = True, deleteId = None, isAddUserOpen = False,
     isSubmitting = False, formValues = defaultValues, formErrors = [],
     trace = [], inflight = [], formMounted = False, submitEnabled = False, orphaned = []\<rparr>"

definition emit :: "effect \<Rightarrow> world \<Rightarrow> world" where
  "emit e s = s\<lparr>trace := trace s @ [e]\<rparr>"

definition toast :: "toast_args \<Rightarrow> world \<Rightarrow> world" where
  "toast t s = emit (Toast t) s"

definition call :: "request \<Rightarrow> world \<Rightarrow> world" where
  \<comment> \<open>An API operation is called: the request is logged and is in flight.\<close>
  "call q s = (emit (Call q) s)\<lparr>inflight := inflight s @ [q]\<rparr>"

definition settle :: "request \<Rightarrow> world \<Rightarrow> world" where
  \<comment> \<open>The promise of a request in flight settles.\<close>
  "settle q s = s\<lparr>inflight := remove1 q (inflight s)\<rparr>"

definition setDeleteId :: "int option \<Rightarrow> world \<Rightarrow> world" where
  "setDeleteId d s = s\<lparr>deleteId := d\<rparr>"

definition setAddUserOpen :: "bool \<Rightarrow> world \<Rightarrow> world" where
  "setAddUserOpen b s = s\<lparr>isAddUserOpen := b\<rparr>"

section \<open>The list view (Users.tsx)\<close>

text \<open>
  An \<open>async\<close> function runs up to its \<open>await\<close> when it is called and resumes when the
  promise settles. Each handler is therefore two functions: \<open>_call\<close>, up to the
  \<open>await\<close>, and \<open>_resume\<close>, from the settled promise to the end (\<open>finally\<close> included).
\<close>

definition fetchUsers_call :: "world \<Rightarrow> world" where
  "fetchUsers_call s = call GetUsersReq (s\<lparr>isLoading := True\<rparr>)"

definition fetchUsers_resume :: "thrown + User list \<Rightarrow> world \<Rightarrow> world" where
  "fetchUsers_resume r s =
     (let s' = (case r of
                  Inr data \<Rightarrow> s\<lparr>users := data\<rparr>
                | Inl error \<Rightarrow>
                    toast \<lparr>title = ''Error'',
                           description = ''No se pudieron cargar los usuarios'',
                           variant = Some destructive\<rparr> s)
      in s'\<lparr>isLoading := False\<rparr>)"

definition handleDelete_call :: "world \<Rightarrow> world" where
  \<comment> \<open>\<open>if (!deleteId) return;\<close> \<open>null\<close> and the number 0 are both falsy.\<close>
  "handleDelete_call s =
     (case deleteId s of
        None \<Rightarrow> s
      | Some n \<Rightarrow> if n = 0 then s else call (DeleteUserReq n) s)"

definition deleteErrorMessage :: "thrown \<Rightarrow> string" where
  "deleteErrorMessage error =
     (case error of
        Error m \<Rightarrow>
          if str_includes m ''500'' then
            ''Error del servidor: El usuario no puede ser eliminado (posiblemente tiene datos relacionados o es un administrador)''
          else if str_includes m ''403'' then
            ''No tienes permisos para eliminar este usuario''
          else if str_includes m ''404'' then
            ''El usuario no fue encontrado''
          else ''No se pudo eliminar el usuario''
      | NonError \<Rightarrow> ''No se pudo eliminar el usuario'')"

definition handleDelete_resume :: "thrown + unit \<Rightarrow> world \<Rightarrow> world" where
  \<comment> \<open>On success \<open>fetchUsers()\<close> is called and not awaited: it runs up to its own
      \<open>await\<close>, then \<open>finally\<close> clears the pending id.\<close>
  "handleDelete_resume r s =
     (let s' = (case r of
                  Inr _ \<Rightarrow>
                    fetchUsers_call
                      (toast \<lparr>title = ''Usuario eliminado'',
                              description = ''El usuario ha sido eliminado exitosamente'',
                              variant = None\<rparr> s)
                | Inl error \<Rightarrow>
                    toast \<lparr>title = ''Error'',
                           description = deleteErrorMessage error,
                           variant = Some destructive\<rparr>
                      (emit (ConsoleError error) s))
      in setDeleteId None s')"

definition getRoleBadgeVariant :: "string \<Rightarrow> string" where
  "getRoleBadgeVariant role =
     (let r = toLowerCase role
      in if r = ''admin'' then ''default''
         else if r = ''comerciante'' then ''secondary''
         else if r = ''creador de ruta'' then ''outline''
         else ''outline'')"

text \<open>
  What \<open>Users\<close> returns: the skeleton while loading, otherwise the page with one table row
  per user, the creation dialog and the confirmation dialog. A row keeps the cells and the
  properties of its delete button; the date cell keeps the raw \<open>createdAt\<close> (its
  localisation is not modelled).
\<close>

record delete_button =
  disabled :: bool
  button_title :: "string option"
  onClick_id :: int

record table_row =
  row_key :: int
  cell_nombre :: string
  cell_email :: string
  badge_variant :: string
  badge_text :: string
  cell_createdAt :: string
  button :: delete_button

datatype view =
    Skeleton
  | Page (rows: "table_row list") (addUserOpen: bool) (alertOpen: bool)

definition renderRow :: "User \<Rightarrow> table_row" where
  "renderRow user =
     \<lparr>row_key = u_id user,
      cell_nombre = u_nombre user,
      cell_email = u_email user,
      badge_variant = getRoleBadgeVariant (u_rol user),
      badge_text = u_rol user,
      cell_createdAt = u_createdAt user,
      button =
        \<lparr>disabled = (toLowerCase (u_rol user) = ''admin''),
         button_title =
           (if toLowerCase (u_rol user) = ''admin''
            then Some ''No se puede eliminar administradores'' else None),
         onClick_id = u_id user\<rparr>\<rparr>"

definition render :: "world \<Rightarrow> view" where
  "render s =
     (if isLoading s then Skeleton
      else Page (map renderRow (users s)) (isAddUserOpen s) (deleteId s \<noteq> None))"

definition click :: "delete_button \<Rightarrow> world \<Rightarrow> world" where
  \<comment> \<open>Modelled from the spec: the \<open>Button\<close> widget of \<open>@/components/ui/button\<close> is not
      among the source files. A disabled button is shown and delivers no click
      ("button disabled, not merely hidden", "the delete affordance was never clickable");
      an enabled one runs its \<open>onClick\<close>, here the handler of the source.\<close>
  "click b s =
     (if disabled b then s
      else setDeleteId (Some (onClick_id b)) (emit (ConsoleLog (onClick_id b)) s))"

definition clickDelete :: "nat \<Rightarrow> world \<Rightarrow> world" where
  \<comment> \<open>A click on the delete button of the \<open>i\<close>-th rendered row, if there is one.\<close>
  "clickDelete i s =
     (case render s of
        Skeleton \<Rightarrow> s
      | Page rs _ _ \<Rightarrow> if i < length rs then click (button (rs ! i)) s else s)"

section \<open>The creation form (AddUserForm.tsx)\<close>

definition roles :: "string list" where
  "roles = [''admin'', ''comerciante'', ''creador de ruta'']"

definition formSchema :: "(string \<Rightarrow> bool) \<Rightarrow> AddUserFormValues \<Rightarrow> (field \<times> issue) list" where
  \<comment> \<open>The issues of the four fields, each field checked on its own. The email syntax of
      the validation library is the parameter \<open>isEmail\<close>.\<close>
  "formSchema isEmail v =
     (if length (nombre v) < 3
      then [(Nombre, Message ''El nombre debe tener al menos 3 caracteres'')] else []) @
     (if \<not> isEmail (email v)
      then [(Email, Message (''Email inv'' @ [CHR 0xE1] @ ''lido''))] else []) @
     (if length (password v) < 6
      then [(Password, Message (''La contrase'' @ [CHR 0xF1] @ ''a debe tener al menos 6 caracteres''))]
      else []) @
     (if rol v \<notin> set roles then [(Rol, InvalidEnumValue)] else [])"

definition handleSubmit ::
  "(string \<Rightarrow> bool) \<Rightarrow> (AddUserFormValues \<Rightarrow> world \<Rightarrow> world) \<Rightarrow> world \<Rightarrow> world" where
  \<comment> \<open>Modelled from the spec: \<open>form.handleSubmit\<close> with the schema as resolver belongs to
      the form library, which is not among the source files. The validation is
      "applied before any network call", "violations are reported per-field; submission
      is blocked while any field is invalid": the callback runs on the values only when the
      schema reports no issue, otherwise the issues become the form's errors.\<close>
  "handleSubmit isEmail onValid s =
     (let errs = formSchema isEmail (formValues s)
      in if errs = [] then onValid (formValues s) (s\<lparr>formErrors := []\<rparr>)
         else s\<lparr>formErrors := errs\<rparr>)"

definition onSubmit_call :: "AddUserFormValues \<Rightarrow> world \<Rightarrow> world" where
  "onSubmit_call v s = call (CreateUserReq v) (s\<lparr>isSubmitting := True\<rparr>)"

definition onSubmit_resume ::
  "(world \<Rightarrow> world) \<Rightarrow> (bool \<Rightarrow> world \<Rightarrow> world) \<Rightarrow> thrown + unit \<Rightarrow> world \<Rightarrow> world" where
  \<comment> \<open>\<open>onUserAdded\<close> and \<open>setOpen\<close> are the two properties of the component.\<close>
  "onSubmit_resume onUserAdded setOpen r s =
     (let s' = (case r of
                  Inr _ \<Rightarrow>
                    setOpen False
                      (onUserAdded
                        (toast \<lparr>title = ''Usuario creado'',
                                description = ''El nuevo usuario ha sido agregado exitosamente.'',
                                variant = None\<rparr> s))
                | Inl error \<Rightarrow>
                    toast \<lparr>title = ''Error'',
                           description =
                             (case error of
                                Error m \<Rightarrow> m
                              | NonError \<Rightarrow>
                                  ''No se pudo crear el usuario. Int'' @ [CHR 0xE9] @ ''ntalo de nuevo.''),
                           variant = Some destructive\<rparr> s)
      in s'\<lparr>isSubmitting := False\<rparr>)"

definition submit :: "(string \<Rightarrow> bool) \<Rightarrow> world \<Rightarrow> world" where
  \<comment> \<open>The submit button is \<open>disabled={isSubmitting}\<close>, an attribute of the view committed
      last. A button that is not there or is disabled delivers nothing (as in \<open>click\<close>);
      an enabled one submits the form through \<open>form.handleSubmit(onSubmit)\<close>. Neither
      \<open>onSubmit\<close> nor this path reads \<open>isSubmitting\<close> itself.\<close>
  "submit isEmail s = (if submitEnabled s then handleSubmit isEmail onSubmit_call s else s)"

section \<open>Rendering\<close>

text \<open>
  \<open>Users\<close> returns the skeleton while loading (lines 88 to 102), and the creation dialog
  with the form otherwise. When the view is committed, a form that is no longer in it is
  discarded with its local state, and a form that was not there before starts from
  \<open>useState(false)\<close> and the default values.
\<close>

fun isCreateReq :: "request \<Rightarrow> bool" where
  "isCreateReq (CreateUserReq v) = True"
| "isCreateReq GetUsersReq = False"
| "isCreateReq (DeleteUserReq n) = False"

definition formShown :: "world \<Rightarrow> bool" where
  \<comment> \<open>Modelled from the spec: the \<open>Dialog\<close> widget of \<open>@/components/ui/dialog\<close> is not
      among the source files. The form is "embedded in a dialog", "a transient child that
      ... is discarded": it is in the view exactly when the page is shown and the dialog is
      open.\<close>
  "formShown s = (\<not> isLoading s \<and> isAddUserOpen s)"

definition freshForm :: "world \<Rightarrow> world" where
  "freshForm s = s\<lparr>isSubmitting := False, formValues := defaultValues, formErrors := []\<rparr>"

definition orphan :: "world \<Rightarrow> world" where
  \<comment> \<open>The create requests of the instance that is discarded stay in flight, but their
      continuations no longer belong to a mounted form.\<close>
  "orphan s =
     s\<lparr>inflight := filter (\<lambda>q. \<not> isCreateReq q) (inflight s),
       orphaned := orphaned s @ filter isCreateReq (inflight s)\<rparr>"

definition commit :: "world \<Rightarrow> world" where
  "commit s =
     (if formShown s then
        (if formMounted s then s\<lparr>submitEnabled := \<not> isSubmitting s\<rparr>
         else (freshForm s)\<lparr>formMounted := True, submitEnabled := True\<rparr>)
      else
        (if formMounted s then freshForm (orphan s) else s)
          \<lparr>formMounted := False, submitEnabled := False\<rparr>)"

section \<open>Events\<close>

text \<open>
  The user's actions, the settling of requests and the rendering of the view, one event
  each. An event runs its handler to the next \<open>await\<close>. The rows of the list are those of
  the current state (\<open>render\<close>); the form and its submit button are those of the view
  committed last, and \<open>Render\<close> commits a new one: closing the dialog or starting a
  fetch only sets the state, and the form is discarded by the \<open>Render\<close> that follows.
  \<open>Users\<close> passes \<open>fetchUsers\<close> (called, not awaited) as \<open>onUserAdded\<close> and
  \<open>setAddUserOpen\<close> as \<open>setOpen\<close>. A request settles only while it is in flight. When
  the create request of a discarded form settles, \<open>onSubmit\<close> resumes all the same, but
  its \<open>setIsSubmitting\<close> reaches no mounted form: the flag of the current form stays.
  Apart from the delete and submit buttons, an action is accepted in every state: the runs
  of the model include those of the screen.
\<close>

datatype event =
    Mount
  | ClickDelete nat
  | ClickCancel
  | AlertOpenChange bool
  | ClickConfirm
  | AddUserOpenChange bool
  | ClickFormCancel
  | ChangeForm AddUserFormValues
  | SubmitForm
  | GetUsersSettled "thrown + User list"
  | DeleteUserSettled int "thrown + unit"
  | CreateUserSettled AddUserFormValues "thrown + unit"
  | OrphanCreateSettled AddUserFormValues "thrown + unit"
  | Render

fun fire :: "(string \<Rightarrow> bool) \<Rightarrow> event \<Rightarrow> world \<Rightarrow> world" where
  "fire isEmail Mount s = fetchUsers_call s"
| "fire isEmail (ClickDelete i) s = clickDelete i s"
| "fire isEmail ClickCancel s = setDeleteId None s"
| "fire isEmail (AlertOpenChange b) s = (if \<not> b then setDeleteId None s else s)"
| "fire isEmail ClickConfirm s = handleDelete_call s"
| "fire isEmail (AddUserOpenChange b) s = setAddUserOpen b s"
| "fire isEmail ClickFormCancel s = setAddUserOpen False s"
| "fire isEmail (ChangeForm v) s = s\<lparr>formValues := v\<rparr>"
| "fire isEmail SubmitForm s = submit isEmail s"
| "fire isEmail (GetUsersSettled r) s =
     (if GetUsersReq \<in> set (inflight s) then fetchUsers_resume r (settle GetUsersReq s) else s)"
| "fire isEmail (DeleteUserSettled n r) s =
     (if DeleteUserReq n \<in> set (inflight s)
      then handleDelete_resume r (settle (DeleteUserReq n) s) else s)"
| "fire isEmail (CreateUserSettled v r) s =
     (if CreateUserReq v \<in> set (inflight s)
      then onSubmit_resume fetchUsers_call setAddUserOpen r (settle (CreateUserReq v) s)
      else s)"
| "fire isEmail (OrphanCreateSettled v r) s =
     (if CreateUserReq v \<in> set (orphaned s)
      then (onSubmit_resume fetchUsers_call setAddUserOpen r
              (s\<lparr>orphaned := remove1 (CreateUserReq v) (orphaned s)\<rparr>))
             \<lparr>isSubmitting := isSubmitting s\<rparr>
      else s)"
| "fire isEmail Render s = commit s"

fun run :: "(string \<Rightarrow> bool) \<Rightarrow> event list \<Rightarrow> world \<Rightarrow> world" where
  "run isEmail [] s = s"
| "run isEmail (e # es) s = run isEmail es (fire isEmail e s)"





section \<open>Sample inputs\<close>

definition adminUser :: User where
  "adminUser = \<lparr>u_id = 7, u_nombre = ''Ana'', u_email = ''ana@example.com'', u_rol = ''admin'',
     u_createdAt = ''2024-01-01''\<rparr>"

definition merchantZero :: User where
  "merchantZero = \<lparr>u_id = 0, u_nombre = ''Luis'', u_email = ''luis@example.com'',
     u_rol = ''comerciante'', u_createdAt = ''2024-01-01''\<rparr>"

definition merchantThree :: User where
  "merchantThree = \<lparr>u_id = 3, u_nombre = ''Eva'', u_email = ''eva@example.com'',
     u_rol = ''Comerciante'', u_createdAt = ''2024-02-02''\<rparr>"

definition shortName :: AddUserFormValues where
  "shortName = \<lparr>nombre = ''Jo'', email = ''a@b.com'', password = ''secret1'', rol = ''admin''\<rparr>"

definition johnDoe :: AddUserFormValues where
  "johnDoe = \<lparr>nombre = ''John Doe'', email = ''john@example.com'', password = ''secret1'',
     rol = ''comerciante''\<rparr>"

definition hasAt :: "string \<Rightarrow> bool" where
  \<comment> \<open>A stand-in for the email syntax, used where a sample run needs one.\<close>
  "hasAt e = str_includes e ''@''"

definition zeroPending :: world where
  \<comment> \<open>The list holds one merchant with id 0, whose delete button has been clicked.\<close>
  "zeroPending = run hasAt [Mount, GetUsersSettled (Inr [merchantZero]), ClickDelete 0] initial"

definition pendingThree :: world where
  \<comment> \<open>The delete of the user with id 3 has been confirmed and its request is in flight.\<close>
  "pendingThree =
     run hasAt [Mount, GetUsersSettled (Inr [merchantThree]), ClickDelete 0, ClickConfirm] initial"

definition filledJohn :: "event list" where
  "filledJohn =
     [Mount, GetUsersSettled (Inr []), AddUserOpenChange True, Render, ChangeForm johnDoe]"

definition filledShort :: world where
  \<comment> \<open>The form is open and holds a name of two characters.\<close>
  "filledShort =
     run hasAt [Mount, GetUsersSettled (Inr []), AddUserOpenChange True, Render,
                ChangeForm shortName] initial"

definition submittedJohn :: world where
  \<comment> \<open>The form has been filled with valid values and submitted.\<close>
  "submittedJohn = run hasAt (filledJohn @ [SubmitForm]) initial"

section \<open>Auxiliary facts\<close>

lemmas handler_defs = emit_def toast_def call_def settle_def setDeleteId_def setAddUserOpen_def
  fetchUsers_call_def fetchUsers_resume_def handleDelete_call_def handleDelete_resume_def
  onSubmit_call_def onSubmit_resume_def submit_def handleSubmit_def clickDelete_def click_def
  render_def commit_def formShown_def freshForm_def orphan_def

lemma lower_admin: "toLowerCase ''admin'' = ''admin''"
  by code_simp

lemma lower_comerciante: "toLowerCase ''comerciante'' = ''comerciante''"
  by code_simp

lemma lower_Comerciante: "toLowerCase ''Comerciante'' = ''comerciante''"
  by code_simp

lemma lower_ADMIN: "toLowerCase ''ADMIN'' = ''admin''"
  by code_simp

lemma lower_Admin: "toLowerCase ''Admin'' = ''admin''"
  by code_simp

lemma lower_Gerente: "toLowerCase ''Gerente'' = ''gerente''"
  by code_simp

text \<open>Lowering a string twice is lowering it once.\<close>

lemma toLowerCase_char_idem: "toLowerCase_char (toLowerCase_char c) = toLowerCase_char c"
proof -
  define n where "n = (of_char c :: nat)"
  show ?thesis
  proof (cases "(65 \<le> n \<and> n \<le> 90) \<or> (192 \<le> n \<and> n \<le> 222 \<and> n \<noteq> 215)")
    case True
    then have low: "toLowerCase_char c = char_of (n + 32)"
      by (simp add: toLowerCase_char_def n_def)
    from True have "(of_char (char_of (n + 32)) :: nat) = n + 32"
      by auto
    with True have "toLowerCase_char (char_of (n + 32)) = char_of (n + 32)"
      by (auto simp: toLowerCase_char_def Let_def)
    with low show ?thesis by simp
  next
    case False
    then have "toLowerCase_char c = c"
      by (auto simp: toLowerCase_char_def n_def)
    then show ?thesis by simp
  qed
qed

lemma toLowerCase_idem: "toLowerCase (toLowerCase r) = toLowerCase r"
  by (simp add: toLowerCase_def toLowerCase_char_idem)

lemma zeroPending_eq:
  "zeroPending = initial\<lparr>users := [merchantZero], isLoading := False, deleteId := Some 0,
     trace := [Call GetUsersReq, ConsoleLog 0]\<rparr>"
  by (simp add: zeroPending_def handler_defs initial_def Let_def renderRow_def merchantZero_def
      lower_comerciante)

lemma pendingThree_eq:
  "pendingThree = initial\<lparr>users := [merchantThree], isLoading := False, deleteId := Some 3,
     trace := [Call GetUsersReq, ConsoleLog 3, Call (DeleteUserReq 3)],
     inflight := [DeleteUserReq 3]\<rparr>"
  by (simp add: pendingThree_def handler_defs initial_def Let_def renderRow_def merchantThree_def
      lower_Comerciante)


lemma filledShort_eq:
  "filledShort = initial\<lparr>isLoading := False, isAddUserOpen := True,
     formValues := shortName, trace := [Call GetUsersReq], formMounted := True,
     submitEnabled := True\<rparr>"
  by (simp add: filledShort_def handler_defs initial_def Let_def)

lemma johnDoe_valid: "formSchema hasAt johnDoe = []"
  by (simp add: formSchema_def johnDoe_def hasAt_def roles_def)

lemma submittedJohn_eq:
  "submittedJohn = initial\<lparr>isLoading := False, isAddUserOpen := True, isSubmitting := True,
     formValues := johnDoe, trace := [Call GetUsersReq, Call (CreateUserReq johnDoe)],
     inflight := [CreateUserReq johnDoe], formMounted := True, submitEnabled := True\<rparr>"
  by (simp add: submittedJohn_def filledJohn_def handler_defs initial_def Let_def johnDoe_valid)

subsection \<open>Counting the create requests in flight\<close>
















subsection \<open>No delete request for the id 0\<close>

lemma fire_no_delete_zero:
  "Call (DeleteUserReq 0) \<in> set (trace (fire isEmail e s)) \<Longrightarrow>
   Call (DeleteUserReq 0) \<in> set (trace s)"
  by (cases e)
     (auto simp: handler_defs Let_def split: option.splits if_splits sum.splits view.splits)

lemma run_no_delete_zero:
  "Call (DeleteUserReq 0) \<in> set (trace (run isEmail es s)) \<Longrightarrow>
   Call (DeleteUserReq 0) \<in> set (trace s)"
  by (induction es arbitrary: s) (auto dest: fire_no_delete_zero)

section \<open>The delete button of an administrator\<close>

text \<open>
  Claim C1. Once the list is shown, every user has a row with a delete button, and for a
  user whose role is \<open>admin\<close> that button is there and disabled: a click on it changes
  nothing, so the administrator's id is not recorded as the pending delete.
\<close>

theorem admin_row_delete_disabled:
  assumes "render s = Page rs a d" and "i < length rs" and "u_rol (users s ! i) = ''admin''"
  shows "length rs = length (users s) \<and> row_key (rs ! i) = u_id (users s ! i) \<and>
         disabled (button (rs ! i)) \<and> clickDelete i s = s \<and>
         fire isEmail (ClickDelete i) s = s"
proof -
  from assms(1) have rs: "rs = map renderRow (users s)"
    by (simp add: render_def split: if_splits)
  with assms(2) have i: "i < length (users s)" by simp
  have dis: "disabled (button (rs ! i))"
    using rs i assms(3) by (simp add: renderRow_def lower_admin)
  have "clickDelete i s = s"
    using assms(1,2) dis by (simp add: clickDelete_def click_def)
  then show ?thesis using rs i dis by (simp add: renderRow_def)
qed

theorem admin_row_delete_disabled_witness:
  "render (initial\<lparr>users := [adminUser], isLoading := False\<rparr>)
     = Page [renderRow adminUser] False False \<and>
   (0::nat) < length [renderRow adminUser] \<and>
   u_rol ((users (initial\<lparr>users := [adminUser], isLoading := False\<rparr>)) ! 0) = ''admin'' \<and>
   disabled (button ([renderRow adminUser] ! 0)) \<and>
   fire hasAt (ClickDelete 0) (initial\<lparr>users := [adminUser], isLoading := False\<rparr>)
     = initial\<lparr>users := [adminUser], isLoading := False\<rparr>"
proof -
  have r: "render (initial\<lparr>users := [adminUser], isLoading := False\<rparr>)
             = Page [renderRow adminUser] False False"
    by (simp add: render_def initial_def)
  have l: "(0::nat) < length [renderRow adminUser]" by simp
  have a: "u_rol ((users (initial\<lparr>users := [adminUser], isLoading := False\<rparr>)) ! 0) = ''admin''"
    by (simp add: adminUser_def)
  from admin_row_delete_disabled [OF r l a, of hasAt] r l a show ?thesis by simp
qed

section \<open>Validation before submission\<close>

text \<open>
  Claim C2. When the name is shorter than 3, or the email is not of email syntax, or the
  password is shorter than 6, or the role is none of the three values, submitting the form
  sends no request and logs nothing: the state is the one before, except that the form's
  errors become the issues of the schema (when the button was enabled). There is at least
  one issue, and a field has an issue exactly when it is the field that is wrong.
\<close>

theorem invalid_input_blocked:
  assumes "length (nombre (formValues s)) < 3 \<or> \<not> isEmail (email (formValues s)) \<or>
           length (password (formValues s)) < 6 \<or> rol (formValues s) \<notin> set roles"
  shows "trace (fire isEmail SubmitForm s) = trace s \<and>
         inflight (fire isEmail SubmitForm s) = inflight s \<and>
         isSubmitting (fire isEmail SubmitForm s) = isSubmitting s \<and>
         formValues (fire isEmail SubmitForm s) = formValues s \<and>
         fire isEmail SubmitForm s =
           (if submitEnabled s then s\<lparr>formErrors := formSchema isEmail (formValues s)\<rparr>
            else s) \<and>
         (submitEnabled s \<longrightarrow>
            formErrors (fire isEmail SubmitForm s) = formSchema isEmail (formValues s)) \<and>
         formSchema isEmail (formValues s) \<noteq> [] \<and>
         (Nombre \<in> fst ` set (formSchema isEmail (formValues s))
            \<longleftrightarrow> length (nombre (formValues s)) < 3) \<and>
         (Email \<in> fst ` set (formSchema isEmail (formValues s))
            \<longleftrightarrow> \<not> isEmail (email (formValues s))) \<and>
         (Password \<in> fst ` set (formSchema isEmail (formValues s))
            \<longleftrightarrow> length (password (formValues s)) < 6) \<and>
         (Rol \<in> fst ` set (formSchema isEmail (formValues s))
            \<longleftrightarrow> rol (formValues s) \<notin> set roles)"
proof -
  have ne: "formSchema isEmail (formValues s) \<noteq> []"
    using assms by (auto simp: formSchema_def)
  have fields:
    "(Nombre \<in> fst ` set (formSchema isEmail (formValues s))
            \<longleftrightarrow> length (nombre (formValues s)) < 3)"
    "(Email \<in> fst ` set (formSchema isEmail (formValues s))
            \<longleftrightarrow> \<not> isEmail (email (formValues s)))"
    "(Password \<in> fst ` set (formSchema isEmail (formValues s))
            \<longleftrightarrow> length (password (formValues s)) < 6)"
    "(Rol \<in> fst ` set (formSchema isEmail (formValues s))
            \<longleftrightarrow> rol (formValues s) \<notin> set roles)"
    by (auto simp: formSchema_def)
  have blocked: "submit isEmail s =
      (if submitEnabled s then s\<lparr>formErrors := formSchema isEmail (formValues s)\<rparr> else s)"
    using ne by (simp add: submit_def handleSubmit_def Let_def)
  show ?thesis using ne fields by (simp add: blocked)
qed

theorem invalid_input_blocked_witness:
  "length (nombre (formValues filledShort)) < 3 \<and>
   submitEnabled filledShort \<and>
   trace (fire hasAt SubmitForm filledShort) = [Call GetUsersReq] \<and>
   inflight (fire hasAt SubmitForm filledShort) = [] \<and>
   formErrors (fire hasAt SubmitForm filledShort) =
     [(Nombre, Message ''El nombre debe tener al menos 3 caracteres'')]"
proof -
  have h: "length (nombre (formValues filledShort)) < 3"
    by (simp add: filledShort_eq shortName_def)
  have e: "formSchema hasAt shortName =
             [(Nombre, Message ''El nombre debe tener al menos 3 caracteres'')]"
    by (simp add: formSchema_def shortName_def hasAt_def roles_def)
  have t: "submitEnabled filledShort" "formValues filledShort = shortName"
    "trace filledShort = [Call GetUsersReq]" "inflight filledShort = []"
    by (simp_all add: filledShort_eq initial_def)
  from invalid_input_blocked [of filledShort hasAt] h e t
  show ?thesis by simp
qed

text \<open>The gate is not always closed: values that pass the schema are sent.\<close>

lemma valid_input_submitted:
  assumes "submitEnabled s" and "3 \<le> length (nombre (formValues s))"
    and "isEmail (email (formValues s))" and "6 \<le> length (password (formValues s))"
    and "rol (formValues s) \<in> set roles"
  shows "fire isEmail SubmitForm s =
         s\<lparr>formErrors := [], isSubmitting := True,
           trace := trace s @ [Call (CreateUserReq (formValues s))],
           inflight := inflight s @ [CreateUserReq (formValues s)]\<rparr>"
  using assms
  by (simp add: submit_def handleSubmit_def formSchema_def onSubmit_call_def call_def emit_def
      Let_def)

section \<open>Confirming a delete\<close>

text \<open>
  A pending id other than 0: the confirm button sends the delete request for that id, and
  when the request succeeds the pending id is cleared, the success notification is shown
  and the list is fetched again.
\<close>

lemma confirm_nonzero_id:
  assumes "deleteId s = Some n" and "n \<noteq> 0"
  shows "fire isEmail ClickConfirm s =
           s\<lparr>trace := trace s @ [Call (DeleteUserReq n)],
             inflight := inflight s @ [DeleteUserReq n]\<rparr>"
  using assms by (simp add: handleDelete_call_def call_def emit_def)

lemma delete_success:
  assumes "DeleteUserReq n \<in> set (inflight s)"
  shows "fire isEmail (DeleteUserSettled n (Inr ())) s =
           s\<lparr>deleteId := None, isLoading := True,
             trace := trace s @ [Toast \<lparr>title = ''Usuario eliminado'',
                 description = ''El usuario ha sido eliminado exitosamente'', variant = None\<rparr>,
               Call GetUsersReq],
             inflight := remove1 (DeleteUserReq n) (inflight s) @ [GetUsersReq]\<rparr>"
  using assms by (simp add: handler_defs Let_def)

text \<open>
  Claim C3, at the pending id 0. The list holds a merchant whose id is 0; the delete button
  of the row is enabled, a click records the id 0 and the confirmation dialog opens
  (\<open>deleteId !== null\<close>). The confirm button then does nothing: no request is in flight
  and the state is the one before, the id still pending.
\<close>

theorem confirm_id_zero_sends_nothing:
  "zeroPending = run hasAt [Mount, GetUsersSettled (Inr [merchantZero]), ClickDelete 0] initial \<and>
   deleteId zeroPending = Some 0 \<and>
   render zeroPending = Page [renderRow merchantZero] False True \<and>
   \<not> disabled (button (renderRow merchantZero)) \<and>
   fire hasAt ClickConfirm zeroPending = zeroPending \<and>
   trace (fire hasAt ClickConfirm zeroPending) = [Call GetUsersReq, ConsoleLog 0] \<and>
   inflight (fire hasAt ClickConfirm zeroPending) = []"
proof -
  have "zeroPending = run hasAt [Mount, GetUsersSettled (Inr [merchantZero]), ClickDelete 0] initial"
    by (simp only: zeroPending_def)
  moreover have "deleteId zeroPending = Some 0"
    "render zeroPending = Page [renderRow merchantZero] False True"
    by (simp_all add: zeroPending_eq render_def initial_def)
  moreover have "\<not> disabled (button (renderRow merchantZero))"
    by (simp add: renderRow_def merchantZero_def lower_comerciante)
  moreover have "fire hasAt ClickConfirm zeroPending = zeroPending"
    by (simp add: zeroPending_eq handleDelete_call_def)
  moreover have "trace zeroPending = [Call GetUsersReq, ConsoleLog 0]" "inflight zeroPending = []"
    by (simp_all add: zeroPending_eq initial_def)
  ultimately show ?thesis by simp
qed

text \<open>
  Claim C9. With no pending id, or with the pending id 0, the delete handler returns at
  once: the state, the trace and the requests in flight are the ones before. No run of the
  screen ever sends a delete request for the id 0, although the delete button of a user
  with id 0 who is no administrator is enabled and records that id.
\<close>

theorem confirm_falsy_id_returns:
  "(deleteId s = None \<or> deleteId s = Some 0 \<longrightarrow>
      handleDelete_call s = s \<and> fire isEmail ClickConfirm s = s) \<and>
   (Call (DeleteUserReq 0) \<notin> set (trace s) \<longrightarrow>
      Call (DeleteUserReq 0) \<notin> set (trace (run isEmail es s))) \<and>
   (u_id u = 0 \<and> toLowerCase (u_rol u) \<noteq> ''admin'' \<longrightarrow>
      \<not> disabled (button (renderRow u)) \<and>
      deleteId (click (button (renderRow u)) s) = Some 0)"
proof -
  have a: "deleteId s = None \<or> deleteId s = Some 0 \<longrightarrow>
      handleDelete_call s = s \<and> fire isEmail ClickConfirm s = s"
    by (auto simp: handleDelete_call_def)
  have b: "Call (DeleteUserReq 0) \<notin> set (trace s) \<longrightarrow>
      Call (DeleteUserReq 0) \<notin> set (trace (run isEmail es s))"
    using run_no_delete_zero by blast
  have c: "u_id u = 0 \<and> toLowerCase (u_rol u) \<noteq> ''admin'' \<longrightarrow>
      \<not> disabled (button (renderRow u)) \<and>
      deleteId (click (button (renderRow u)) s) = Some 0"
    by (simp add: renderRow_def click_def setDeleteId_def emit_def)
  from a b c show ?thesis by blast
qed

theorem confirm_falsy_id_returns_witness:
  "deleteId zeroPending = Some 0 \<and>
   Call (DeleteUserReq 0) \<notin> set (trace zeroPending) \<and>
   u_id merchantZero = 0 \<and> toLowerCase (u_rol merchantZero) \<noteq> ''admin'' \<and>
   fire hasAt ClickConfirm zeroPending = zeroPending \<and>
   Call (DeleteUserReq 0) \<notin> set (trace (run hasAt [ClickConfirm, ClickConfirm] zeroPending)) \<and>
   \<not> disabled (button (renderRow merchantZero))"
proof -
  have h1: "deleteId zeroPending = Some 0"
    by (simp add: zeroPending_eq)
  have h2: "Call (DeleteUserReq 0) \<notin> set (trace zeroPending)"
    by (simp add: zeroPending_eq initial_def)
  have h3: "u_id merchantZero = 0 \<and> toLowerCase (u_rol merchantZero) \<noteq> ''admin''"
    by (simp add: merchantZero_def lower_comerciante)
  from confirm_falsy_id_returns [of zeroPending hasAt "[ClickConfirm, ClickConfirm]" merchantZero]
    h1 h2 h3
  show ?thesis by simp
qed

section \<open>A failed delete\<close>

text \<open>
  Claim C4, as stated: an error of status 403 gives the notification of insufficient
  permission. The message of this error names the status 403 and a user id that ends in
  500; the notification is not the one of insufficient permission.
\<close>

theorem delete_error_403_shown_as_500:
  "str_includes ''Error 403: cannot delete user 1500'' ''403'' \<and>
   deleteErrorMessage (Error ''Error 403: cannot delete user 1500'')
     \<noteq> ''No tienes permisos para eliminar este usuario'' \<and>
   deleteErrorMessage (Error ''Error 403: cannot delete user 1500'')
     = ''Error del servidor: El usuario no puede ser eliminado (posiblemente tiene datos relacionados o es un administrador)''"
  by (simp add: deleteErrorMessage_def)

text \<open>
  Claim C4, amended. When a delete request fails, the error is written to the console and
  one notification is shown; the pending id is cleared, the users and the loading flag
  stay as they are and no request is sent. The text of the notification comes from the
  message of the thrown \<open>Error\<close>, searched for \<open>500\<close>, then \<open>403\<close>, then \<open>404\<close>: the first
  that occurs decides; a message with none of them, or a thrown value that is no \<open>Error\<close>,
  gives the generic text.
\<close>

theorem delete_failure_message:
  assumes "DeleteUserReq n \<in> set (inflight s)"
  shows "trace (fire isEmail (DeleteUserSettled n (Inl error)) s) =
           trace s @ [ConsoleError error,
                      Toast \<lparr>title = ''Error'', description = deleteErrorMessage error,
                             variant = Some destructive\<rparr>] \<and>
         deleteId (fire isEmail (DeleteUserSettled n (Inl error)) s) = None \<and>
         inflight (fire isEmail (DeleteUserSettled n (Inl error)) s)
           = remove1 (DeleteUserReq n) (inflight s) \<and>
         users (fire isEmail (DeleteUserSettled n (Inl error)) s) = users s \<and>
         isLoading (fire isEmail (DeleteUserSettled n (Inl error)) s) = isLoading s \<and>
         (error = Error m \<and> str_includes m ''500'' \<longrightarrow>
            deleteErrorMessage error = ''Error del servidor: El usuario no puede ser eliminado (posiblemente tiene datos relacionados o es un administrador)'') \<and>
         (error = Error m \<and> \<not> str_includes m ''500'' \<and> str_includes m ''403'' \<longrightarrow>
            deleteErrorMessage error = ''No tienes permisos para eliminar este usuario'') \<and>
         (error = Error m \<and> \<not> str_includes m ''500'' \<and> \<not> str_includes m ''403'' \<and>
            str_includes m ''404'' \<longrightarrow>
            deleteErrorMessage error = ''El usuario no fue encontrado'') \<and>
         (error = NonError \<or>
          (error = Error m \<and> \<not> str_includes m ''500'' \<and> \<not> str_includes m ''403'' \<and>
            \<not> str_includes m ''404'') \<longrightarrow>
            deleteErrorMessage error = ''No se pudo eliminar el usuario'')"
proof -
  have step: "fire isEmail (DeleteUserSettled n (Inl error)) s =
      s\<lparr>deleteId := None,
        trace := trace s @ [ConsoleError error,
                      Toast \<lparr>title = ''Error'', description = deleteErrorMessage error,
                             variant = Some destructive\<rparr>],
        inflight := remove1 (DeleteUserReq n) (inflight s)\<rparr>"
    using assms
    by (simp add: handleDelete_resume_def settle_def toast_def emit_def setDeleteId_def Let_def)
  have msg:
    "error = Error m \<and> str_includes m ''500'' \<longrightarrow>
            deleteErrorMessage error = ''Error del servidor: El usuario no puede ser eliminado (posiblemente tiene datos relacionados o es un administrador)''"
    "error = Error m \<and> \<not> str_includes m ''500'' \<and> str_includes m ''403'' \<longrightarrow>
            deleteErrorMessage error = ''No tienes permisos para eliminar este usuario''"
    "error = Error m \<and> \<not> str_includes m ''500'' \<and> \<not> str_includes m ''403'' \<and>
            str_includes m ''404'' \<longrightarrow>
            deleteErrorMessage error = ''El usuario no fue encontrado''"
    "error = NonError \<or>
          (error = Error m \<and> \<not> str_includes m ''500'' \<and> \<not> str_includes m ''403'' \<and>
            \<not> str_includes m ''404'') \<longrightarrow>
            deleteErrorMessage error = ''No se pudo eliminar el usuario''"
    by (auto simp: deleteErrorMessage_def)
  show ?thesis unfolding step using msg by simp
qed

theorem delete_failure_message_witness:
  "DeleteUserReq 3 \<in> set (inflight pendingThree) \<and>
   str_includes ''HTTP error! status: 500'' ''500'' \<and>
   trace (fire hasAt (DeleteUserSettled 3 (Inl (Error ''HTTP error! status: 500''))) pendingThree) =
     [Call GetUsersReq, ConsoleLog 3, Call (DeleteUserReq 3),
      ConsoleError (Error ''HTTP error! status: 500''),
      Toast \<lparr>title = ''Error'',
        description = ''Error del servidor: El usuario no puede ser eliminado (posiblemente tiene datos relacionados o es un administrador)'',
        variant = Some destructive\<rparr>] \<and>
   deleteId (fire hasAt (DeleteUserSettled 3 (Inl (Error ''HTTP error! status: 500''))) pendingThree)
     = None \<and>
   inflight (fire hasAt (DeleteUserSettled 3 (Inl (Error ''HTTP error! status: 500''))) pendingThree)
     = [] \<and>
   \<not> str_includes ''HTTP error! status: 403'' ''500'' \<and>
   str_includes ''HTTP error! status: 403'' ''403'' \<and>
   deleteErrorMessage (Error ''HTTP error! status: 403'')
     = ''No tienes permisos para eliminar este usuario'' \<and>
   \<not> str_includes ''HTTP error! status: 404'' ''500'' \<and>
   \<not> str_includes ''HTTP error! status: 404'' ''403'' \<and>
   str_includes ''HTTP error! status: 404'' ''404'' \<and>
   deleteErrorMessage (Error ''HTTP error! status: 404'') = ''El usuario no fue encontrado'' \<and>
   deleteErrorMessage NonError = ''No se pudo eliminar el usuario''"
proof -
  have h: "DeleteUserReq 3 \<in> set (inflight pendingThree)"
    by (simp add: pendingThree_eq)
  have i: "str_includes ''HTTP error! status: 500'' ''500''"
    "\<not> str_includes ''HTTP error! status: 403'' ''500''"
    "str_includes ''HTTP error! status: 403'' ''403''"
    "\<not> str_includes ''HTTP error! status: 404'' ''500''"
    "\<not> str_includes ''HTTP error! status: 404'' ''403''"
    "str_includes ''HTTP error! status: 404'' ''404''"
    by simp_all
  have t: "trace pendingThree = [Call GetUsersReq, ConsoleLog 3, Call (DeleteUserReq 3)]"
    "inflight pendingThree = [DeleteUserReq 3]"
    by (simp_all add: pendingThree_eq initial_def)
  from
    delete_failure_message [OF h, of hasAt "Error ''HTTP error! status: 500''"
      "''HTTP error! status: 500''"]
    delete_failure_message [OF h, of hasAt "Error ''HTTP error! status: 403''"
      "''HTTP error! status: 403''"]
    delete_failure_message [OF h, of hasAt "Error ''HTTP error! status: 404''"
      "''HTTP error! status: 404''"]
    delete_failure_message [OF h, of hasAt NonError "[]"]
    h i t
  show ?thesis by simp
qed

section \<open>Creating a user\<close>

text \<open>
  Claim C5. When the create request succeeds, the form shows the success notification,
  calls \<open>onUserAdded\<close> once and then \<open>setOpen(false)\<close>, and clears its own submitting flag.
  In the list view \<open>onUserAdded\<close> starts \<open>fetchUsers\<close>: the trace grows by the
  notification and by one call of \<open>getUsers\<close>, and the creation dialog is closed.
\<close>

theorem create_success_effects:
  assumes "CreateUserReq v \<in> set (inflight s)"
  shows "fire isEmail (CreateUserSettled v (Inr ())) s =
           s\<lparr>isLoading := True, isAddUserOpen := False, isSubmitting := False,
             trace := trace s @
               [Toast \<lparr>title = ''Usuario creado'',
                       description = ''El nuevo usuario ha sido agregado exitosamente.'',
                       variant = None\<rparr>,
                Call GetUsersReq],
             inflight := remove1 (CreateUserReq v) (inflight s) @ [GetUsersReq]\<rparr> \<and>
         onSubmit_resume onUserAdded setOpen (Inr ()) s =
           (setOpen False
              (onUserAdded
                 (toast \<lparr>title = ''Usuario creado'',
                         description = ''El nuevo usuario ha sido agregado exitosamente.'',
                         variant = None\<rparr> s)))\<lparr>isSubmitting := False\<rparr>"
  using assms by (simp add: handler_defs Let_def)

theorem create_success_effects_witness:
  "CreateUserReq johnDoe \<in> set (inflight submittedJohn) \<and>
   trace (fire hasAt (CreateUserSettled johnDoe (Inr ())) submittedJohn) =
     [Call GetUsersReq, Call (CreateUserReq johnDoe),
      Toast \<lparr>title = ''Usuario creado'',
             description = ''El nuevo usuario ha sido agregado exitosamente.'',
             variant = None\<rparr>,
      Call GetUsersReq] \<and>
   isAddUserOpen (fire hasAt (CreateUserSettled johnDoe (Inr ())) submittedJohn) = False \<and>
   inflight (fire hasAt (CreateUserSettled johnDoe (Inr ())) submittedJohn) = [GetUsersReq]"
proof -
  have h: "CreateUserReq johnDoe \<in> set (inflight submittedJohn)"
    by (simp add: submittedJohn_eq)
  have t: "trace submittedJohn = [Call GetUsersReq, Call (CreateUserReq johnDoe)]"
    "inflight submittedJohn = [CreateUserReq johnDoe]"
    by (simp_all add: submittedJohn_eq initial_def)
  from create_success_effects [OF h, of hasAt id "\<lambda>b. id"] h t
  show ?thesis by simp
qed






section \<open>Fetching the users\<close>

text \<open>
  Claim C7. When the request for the users fails, the users are the ones before, one error
  notification is added, the loading flag is cleared and the page is shown instead of the
  skeleton. The same holds for the whole sequence, from the call to the failure.
\<close>

theorem fetch_failure_keeps_users:
  assumes "GetUsersReq \<in> set (inflight s)"
  shows "fire isEmail (GetUsersSettled (Inl error)) s =
           s\<lparr>isLoading := False,
             trace := trace s @
               [Toast \<lparr>title = ''Error'', description = ''No se pudieron cargar los usuarios'',
                       variant = Some destructive\<rparr>],
             inflight := remove1 GetUsersReq (inflight s)\<rparr> \<and>
         users (fire isEmail (GetUsersSettled (Inl error)) s) = users s \<and>
         isLoading (fire isEmail (GetUsersSettled (Inl error)) s) = False \<and>
         render (fire isEmail (GetUsersSettled (Inl error)) s) \<noteq> Skeleton \<and>
         users (run isEmail [Mount, GetUsersSettled (Inl error)] s') = users s' \<and>
         isLoading (run isEmail [Mount, GetUsersSettled (Inl error)] s') = False"
  using assms by (simp add: handler_defs Let_def)

theorem fetch_failure_keeps_users_witness:
  "GetUsersReq \<in> set (inflight (fire hasAt Mount initial)) \<and>
   users (fire hasAt (GetUsersSettled (Inl NonError)) (fire hasAt Mount initial)) = [] \<and>
   isLoading (fire hasAt (GetUsersSettled (Inl NonError)) (fire hasAt Mount initial)) = False \<and>
   trace (fire hasAt (GetUsersSettled (Inl NonError)) (fire hasAt Mount initial)) =
     [Call GetUsersReq,
      Toast \<lparr>title = ''Error'', description = ''No se pudieron cargar los usuarios'',
             variant = Some destructive\<rparr>]"
proof -
  have h: "GetUsersReq \<in> set (inflight (fire hasAt Mount initial))"
    by (simp add: fetchUsers_call_def call_def emit_def initial_def)
  have t: "trace (fire hasAt Mount initial) = [Call GetUsersReq]"
    "users (fire hasAt Mount initial) = []"
    by (simp_all add: fetchUsers_call_def call_def emit_def initial_def)
  from fetch_failure_keeps_users [OF h, of hasAt NonError initial] h t
  show ?thesis by simp
qed

section \<open>Roles are compared in lower case\<close>

text \<open>
  Claim C10. The list view lowers the role before it compares it. A user whose role
  lowers to \<open>admin\<close> has the delete button disabled (a click changes nothing) and the
  badge variant \<open>default\<close>; one whose role lowers to \<open>comerciante\<close> has the variant
  \<open>secondary\<close>; a role that lowers to none of the three values has the variant
  \<open>outline\<close>. The badge and the disabled flag of a role are those of the lowered role.
\<close>

theorem role_comparison_ignores_case:
  "(toLowerCase (u_rol u) = ''admin'' \<longrightarrow>
      disabled (button (renderRow u)) \<and> badge_variant (renderRow u) = ''default'' \<and>
      click (button (renderRow u)) s = s) \<and>
   (toLowerCase (u_rol u) = ''comerciante'' \<longrightarrow>
      \<not> disabled (button (renderRow u)) \<and> badge_variant (renderRow u) = ''secondary'') \<and>
   (toLowerCase r \<notin> set roles \<longrightarrow> getRoleBadgeVariant r = ''outline'') \<and>
   getRoleBadgeVariant (toLowerCase r) = getRoleBadgeVariant r \<and>
   disabled (button (renderRow (u\<lparr>u_rol := toLowerCase (u_rol u)\<rparr>)))
     = disabled (button (renderRow u))"
proof -
  have badge: "getRoleBadgeVariant (toLowerCase r) = getRoleBadgeVariant r"
    by (simp add: getRoleBadgeVariant_def toLowerCase_idem)
  have flag: "disabled (button (renderRow (u\<lparr>u_rol := toLowerCase (u_rol u)\<rparr>)))
     = disabled (button (renderRow u))"
    by (simp add: renderRow_def toLowerCase_idem)
  have rest: "(toLowerCase (u_rol u) = ''admin'' \<longrightarrow>
      disabled (button (renderRow u)) \<and> badge_variant (renderRow u) = ''default'' \<and>
      click (button (renderRow u)) s = s) \<and>
   (toLowerCase (u_rol u) = ''comerciante'' \<longrightarrow>
      \<not> disabled (button (renderRow u)) \<and> badge_variant (renderRow u) = ''secondary'') \<and>
   (toLowerCase r \<notin> set roles \<longrightarrow> getRoleBadgeVariant r = ''outline'')"
    by (simp add: renderRow_def getRoleBadgeVariant_def click_def roles_def Let_def)
  from badge flag rest show ?thesis by simp
qed

theorem role_comparison_ignores_case_witness:
  "toLowerCase (u_rol (adminUser\<lparr>u_rol := ''ADMIN''\<rparr>)) = ''admin'' \<and>
   toLowerCase (u_rol (adminUser\<lparr>u_rol := ''Admin''\<rparr>)) = ''admin'' \<and>
   toLowerCase (u_rol merchantThree) = ''comerciante'' \<and>
   toLowerCase ''Gerente'' \<notin> set roles \<and>
   disabled (button (renderRow (adminUser\<lparr>u_rol := ''ADMIN''\<rparr>))) \<and>
   badge_variant (renderRow (adminUser\<lparr>u_rol := ''ADMIN''\<rparr>)) = ''default'' \<and>
   click (button (renderRow (adminUser\<lparr>u_rol := ''ADMIN''\<rparr>))) initial = initial \<and>
   disabled (button (renderRow (adminUser\<lparr>u_rol := ''Admin''\<rparr>))) \<and>
   badge_variant (renderRow merchantThree) = ''secondary'' \<and>
   getRoleBadgeVariant ''Gerente'' = ''outline''"
proof -
  have a: "toLowerCase (u_rol (adminUser\<lparr>u_rol := ''ADMIN''\<rparr>)) = ''admin''"
    "toLowerCase (u_rol (adminUser\<lparr>u_rol := ''Admin''\<rparr>)) = ''admin''"
    by (simp_all add: lower_ADMIN lower_Admin)
  have m: "toLowerCase (u_rol merchantThree) = ''comerciante''"
    by (simp add: merchantThree_def lower_Comerciante)
  have g: "toLowerCase ''Gerente'' \<notin> set roles"
    by (simp add: lower_Gerente roles_def)
  from
    role_comparison_ignores_case [of "adminUser\<lparr>u_rol := ''ADMIN''\<rparr>" initial "''Gerente''"]
    role_comparison_ignores_case [of "adminUser\<lparr>u_rol := ''Admin''\<rparr>" initial "''Gerente''"]
    role_comparison_ignores_case [of merchantThree initial "''Gerente''"]
    a m g
  show ?thesis by simp
qed

end
